theory Spec2Isabelle
  imports Main "HOL-Library.Sublist" "HOL-Library.Word"
begin

section \<open>Python values and the library functions the pipeline calls\<close>

text \<open>
  The values \<open>json.loads\<close> produces: \<open>None\<close>, booleans, unbounded integers, floats (kept as
  their 64-bit pattern, never computed on), strings, lists and dicts. A dict is the list of
  its items in insertion order; \<open>json.loads\<close> yields every key once.
  A Python \<open>str\<close> is a sequence of code points; the model covers the code points below 256,
  one \<open>char\<close> each.
\<close>

datatype json =
    JNull
  | JBool bool
  | JInt int
  | JFloat "64 word"
  | JStr string
  | JList "json list"
  | JObj "(string \<times> json) list"

text \<open>
  The exceptions that can leave a function of \<open>main.py\<close>: a method that the value does not
  have (\<open>.get\<close> on a non-dict, \<open>.lower\<close> on a non-string) and the two a failed \<open>json.loads\<close>
  raises, with the text \<open>str(e)\<close> of the exception. \<open>ValueError\<close> here is one that is not a
  \<open>JSONDecodeError\<close>, which \<open>except json.JSONDecodeError\<close> does not catch.
\<close>

datatype py_error = AttributeError | JSONDecodeError string | ValueError string

text \<open>
  How \<open>json.loads\<close> fails: on a text that is not JSON it raises \<open>JSONDecodeError\<close>; on an
  integer literal with more digits than the interpreter converts it raises a plain
  \<open>ValueError\<close>. Both carry their text.
\<close>

datatype loads_error = DecodeError string | PlainValueError string

definition raised :: "loads_error \<Rightarrow> py_error" where
  "raised e = (case e of DecodeError msg \<Rightarrow> JSONDecodeError msg | PlainValueError msg \<Rightarrow> ValueError msg)"

definition error_text :: "loads_error \<Rightarrow> string" where
  "error_text e = (case e of DecodeError msg \<Rightarrow> msg | PlainValueError msg \<Rightarrow> msg)"

text \<open>
  Library functions of Python that are not code of this repository are parameters of the
  model: \<open>json.loads\<close> (\<open>Inl e\<close> when it raises, with the failure \<open>e\<close>),
  \<open>json.dumps\<close>, and \<open>str()\<close> of a number, list or dict.
\<close>

record pylib =
  json_loads :: "string \<Rightarrow> loads_error + json"
  json_dumps :: "json \<Rightarrow> string"
  py_repr :: "json \<Rightarrow> string"

text \<open>\<open>str(v)\<close>, as an f-string formats a value: a string is itself, \<open>None\<close> is \<open>None\<close>.\<close>

definition py_str :: "pylib \<Rightarrow> json \<Rightarrow> string" where
  "py_str L v =
     (case v of
        JStr s \<Rightarrow> s
      | JNull \<Rightarrow> ''None''
      | JBool b \<Rightarrow> (if b then ''True'' else ''False'')
      | _ \<Rightarrow> py_repr L v)"

text \<open>\<open>d.get(k, default)\<close> on a dict.\<close>

definition dict_get :: "(string \<times> json) list \<Rightarrow> string \<Rightarrow> json \<Rightarrow> json" where
  "dict_get kvs k dflt = (case map_of kvs k of Some v \<Rightarrow> v | None \<Rightarrow> dflt)"

text \<open>\<open>v.get(k, default)\<close> on any parsed value: only a dict has the method.\<close>

definition py_get :: "json \<Rightarrow> string \<Rightarrow> json \<Rightarrow> py_error + json" where
  "py_get v k dflt = (case v of JObj kvs \<Rightarrow> Inr (dict_get kvs k dflt) | _ \<Rightarrow> Inl AttributeError)"

text \<open>\<open>str.isspace\<close> on one code point below 256, which is what \<open>str.strip()\<close> removes.\<close>

definition is_space :: "char \<Rightarrow> bool" where
  "is_space c =
     (let n = (of_char c :: nat)
      in (9 \<le> n \<and> n \<le> 13) \<or> (28 \<le> n \<and> n \<le> 32) \<or> n = 133 \<or> n = 160)"

text \<open>\<open>not line.strip()\<close>: nothing is left of the line once the white space is stripped.\<close>

definition is_blank :: "string \<Rightarrow> bool" where
  "is_blank line = list_all is_space line"

text \<open>\<open>str.lower()\<close> on code points below 256: the letters A-Z and the upper-case letters of
  Latin-1 move up by 32, everything else stays.\<close>

definition is_upper :: "char \<Rightarrow> bool" where
  "is_upper c =
     (let n = (of_char c :: nat)
      in (65 \<le> n \<and> n \<le> 90) \<or> (192 \<le> n \<and> n \<le> 222 \<and> n \<noteq> 215))"

definition lower_char :: "char \<Rightarrow> char" where
  "lower_char c = (if is_upper c then char_of ((of_char c :: nat) + 32) else c)"

definition lower :: "string \<Rightarrow> string" where
  "lower s = map lower_char s"

text \<open>\<open>v.lower()\<close> on a parsed value: only a string has the method.\<close>

definition py_lower :: "json \<Rightarrow> py_error + string" where
  "py_lower v = (case v of JStr s \<Rightarrow> Inr (lower s) | _ \<Rightarrow> Inl AttributeError)"

text \<open>Python's \<open>k in s\<close> on strings is \<^const>\<open>sublist\<close>: \<open>k\<close> occurs in \<open>s\<close> as a contiguous run.\<close>

section \<open>The world around one call\<close>

text \<open>
  What the process reads from outside while it handles one line: the environment variable
  \<open>OPENAI_API_KEY\<close>, the guidelines file (\<open>None\<close> when it does not exist), the resources file
  as the list of its lines, and what the chat-completion call does with a prompt.
\<close>

datatype llm_outcome =
    Raises string
  | Content string

text \<open>
  \<open>Raises msg\<close> is any exception \<open>e\<close> with \<open>str(e) = msg\<close> raised between
  \<open>client.chat.completions.create\<close> and the read of \<open>message.content\<close> (no network, quota,
  a \<open>None\<close> content); \<open>Content c\<close> is a completion with the text \<open>c\<close>.
\<close>

record world =
  api_key :: "string option"
  guidelines_file :: "string option"
  resources_file :: "string list option"
  llm :: "string \<Rightarrow> llm_outcome"

section \<open>\<open>get_latest_resources\<close> and \<open>get_guidelines\<close>\<close>

text \<open>The \<open>for line in f\<close> loop: \<open>last_line\<close> is overwritten by every line that is not blank.\<close>

fun scan_lines :: "string option \<Rightarrow> string list \<Rightarrow> string option" where
  "scan_lines last_line [] = last_line"
| "scan_lines last_line (line # rest) =
     scan_lines (if \<not> is_blank line then Some line else last_line) rest"

definition get_latest_resources :: "pylib \<Rightarrow> string list option \<Rightarrow> py_error + json" where
  "get_latest_resources L file =
     (let last_line = (case file of None \<Rightarrow> None | Some ls \<Rightarrow> scan_lines None ls)
      in case last_line of
           Some l \<Rightarrow>
             (case json_loads L l of
                Inl e \<Rightarrow> Inl (raised e)
              | Inr v \<Rightarrow> Inr v)
         | None \<Rightarrow> Inr (JObj []))"

definition get_guidelines :: "string option \<Rightarrow> string" where
  "get_guidelines file = (case file of Some t \<Rightarrow> t | None \<Rightarrow> [])"

section \<open>\<open>triage_patient\<close>\<close>

definition nl :: string where
  "nl = [CHR 0x0A]"

text \<open>The f-string of the prompt. Every line of the template is indented by four spaces;
  the \<open>.get\<close> calls run from left to right and the first one on a non-dict raises.\<close>

definition build_prompt :: "pylib \<Rightarrow> json \<Rightarrow> string \<Rightarrow> json \<Rightarrow> py_error + string" where
  \<open>build_prompt L patient_data guidelines_text resources =
     (case resources of
        JObj r \<Rightarrow>
          (case patient_data of
             JObj p \<Rightarrow>
               Inr (concat (map (\<lambda>s. nl @ ''    '' @ s)
                 [''You are a Live AI Healthcare Triage Agent.'',
                  '''',
                  ''GUIDELINES:'',
                  guidelines_text,
                  '''',
                  ''CURRENT RESOURCES:'',
                  ''ICU Beds Available: '' @ py_str L (dict_get r ''icu_beds_available'' (JStr ''Unknown'')),
                  ''Doctors: '' @ py_str L (dict_get r ''doctors_on_call'' (JList [])),
                  ''Nurses: '' @ py_str L (dict_get r ''nurses_available'' (JStr ''Unknown'')),
                  '''',
                  ''PATIENT:'',
                  ''ID: '' @ py_str L (dict_get p ''patient_id'' JNull),
                  ''Name: '' @ py_str L (dict_get p ''name'' JNull),
                  ''Symptoms: '' @ py_str L (dict_get p ''symptoms'' JNull),
                  ''Vitals: '' @ py_str L (dict_get p ''vitals'' JNull),
                  ''Labs: '' @ py_str L (dict_get p ''labs'' JNull),
                  '''',
                  ''TASK:'',
                  ''Perform triage, resource allocation, and alerting based on the guidelines and resources.'',
                  '''',
                  ''OUTPUT FORMAT (Strict JSON):'',
                  ''{'',
                  ''    "Patient Summary": { ... },'',
                  ''    "Triage Decision": { "Priority Level": "...", "Reasoning": "..." },'',
                  ''    "Resource Decision": { "ICU Required": "...", "ICU Assigned": "...", "Doctor Assigned": "...", "Nurse Assigned": "..." },'',
                  ''    "Alerts": { "Alert Level": "...", "Alert Message": "..." }'',
                  ''}'',
                  '''']))
           | _ \<Rightarrow> Inl AttributeError)
      | _ \<Rightarrow> Inl AttributeError)\<close>

text \<open>The \<open>if\<close>/\<open>elif\<close> chain of the fallback on the lower-cased symptoms:
  priority, reasoning and \<open>icu_req\<close>.\<close>

definition keyword_rules :: "string \<Rightarrow> string \<times> string \<times> string" where
  "keyword_rules symptoms =
     (if sublist ''chest pain'' symptoms \<or> sublist ''severe'' symptoms
         \<or> sublist ''difficulty breathing'' symptoms
      then (''Critical'', ''Fallback: Critical keywords detected in symptoms.'', ''Yes'')
      else if sublist ''broken'' symptoms \<or> sublist ''fracture'' symptoms
      then (''Medium'', ''Fallback: Potential fracture detected.'', ''No'')
      else (''Low'', ''Fallback: Minor symptoms detected.'', ''No''))"

text \<open>The dict the \<open>except\<close> branch returns.\<close>

definition fallback_record ::
  "pylib \<Rightarrow> (string \<times> json) list \<Rightarrow> string \<Rightarrow> string \<times> string \<times> string \<Rightarrow> json" where
  "fallback_record L p error_msg rules =
     (case rules of (priority, reasoning, icu_req) \<Rightarrow>
        JObj
          [(''Patient Summary'',
              JObj [(''ID'', dict_get p ''patient_id'' JNull),
                    (''Name'', dict_get p ''name'' JNull)]),
           (''Triage Decision'',
              JObj [(''Priority Level'', JStr priority),
                    (''Reasoning'',
                       JStr (reasoning @ '' (Auto-generated due to LLM Error: ''
                               @ take 50 error_msg @ ''...)''))]),
           (''Resource Decision'',
              JObj [(''ICU Required'', JStr icu_req),
                    (''ICU Assigned'', JStr ''Pending Check''),
                    (''Doctor Assigned'', JStr ''On Call''),
                    (''Nurse Assigned'', JStr ''Next Available'')]),
           (''Alerts'',
              JObj [(''Alert Level'',
                       JStr (if priority = ''Critical'' then ''Urgent'' else ''Normal'')),
                    (''Alert Message'',
                       JStr (''System Alert: Fallback mode used for ''
                               @ py_str L (dict_get p ''name'' JNull)))])])"

text \<open>The \<open>except Exception as e\<close> branch, with \<open>error_msg = str(e)\<close>. It raises when the
  value under \<open>symptoms\<close> has no \<open>lower\<close>.\<close>

definition fallback :: "pylib \<Rightarrow> json \<Rightarrow> string \<Rightarrow> py_error + json" where
  "fallback L patient_data error_msg =
     (case patient_data of
        JObj p \<Rightarrow>
          (case py_lower (dict_get p ''symptoms'' (JStr [])) of
             Inl e \<Rightarrow> Inl e
           | Inr symptoms \<Rightarrow> Inr (fallback_record L p error_msg (keyword_rules symptoms)))
      | _ \<Rightarrow> Inl AttributeError)"

text \<open>The record returned when \<open>not api_key\<close>: the variable is unset or empty. With a key,
  the constructor \<open>OpenAI(api_key=api_key)\<close> only stores it; what can fail is the call.\<close>

definition no_key_record :: "(string \<times> json) list \<Rightarrow> json" where
  "no_key_record p =
     JObj [(''error'', JStr ''OPENAI_API_KEY not set''),
           (''patient_id'', dict_get p ''patient_id'' JNull)]"

definition triage_patient :: "pylib \<Rightarrow> world \<Rightarrow> json \<Rightarrow> string \<Rightarrow> json \<Rightarrow> py_error + json" where
  "triage_patient L w patient_data guidelines_text resources =
     (case build_prompt L patient_data guidelines_text resources of
        Inl e \<Rightarrow> Inl e
      | Inr prompt \<Rightarrow>
          (case patient_data of
             JObj p \<Rightarrow>
               (if api_key w = None \<or> api_key w = Some []
                then Inr (no_key_record p)
                else
                  (case llm w prompt of
                     Raises error_msg \<Rightarrow> fallback L patient_data error_msg
                   | Content content \<Rightarrow>
                       (case json_loads L content of
                          Inr decision \<Rightarrow> Inr decision
                        | Inl e \<Rightarrow> fallback L patient_data (error_text e))))
           | _ \<Rightarrow> Inl AttributeError))"

section \<open>\<open>run\<close>\<close>

text \<open>
  The body of the \<open>try\<close> for one line. The output file is the list of the lines written to
  it; \<open>open(OUTPUT_FILE, "a")\<close> adds one at the end.
\<close>

definition try_body :: "pylib \<Rightarrow> world \<Rightarrow> string \<Rightarrow> string list \<Rightarrow> py_error + string list" where
  "try_body L w line out =
     (case json_loads L line of
        Inl e \<Rightarrow> Inl (raised e)
      | Inr patient \<Rightarrow>
          (case py_get patient ''patient_id'' JNull of
             Inl e \<Rightarrow> Inl e
           | Inr _ \<Rightarrow>
               (case get_latest_resources L (resources_file w) of
                  Inl e \<Rightarrow> Inl e
                | Inr resources \<Rightarrow>
                    (case triage_patient L w patient (get_guidelines (guidelines_file w)) resources of
                       Inl e \<Rightarrow> Inl e
                     | Inr decision \<Rightarrow> Inr (out @ [json_dumps L decision @ nl])))))"

text \<open>One turn of the \<open>while True\<close> loop on the line \<open>readline\<close> returned: nothing read and
  blank lines go round again, \<open>except json.JSONDecodeError\<close> swallows that exception from
  anywhere in the \<open>try\<close>, any other exception leaves \<open>run\<close>.\<close>

definition process_line :: "pylib \<Rightarrow> world \<Rightarrow> string \<Rightarrow> string list \<Rightarrow> py_error + string list" where
  "process_line L w line out =
     (if line = [] then Inr out
      else if is_blank line then Inr out
      else
        (case try_body L w line out of
           Inl (JSONDecodeError msg) \<Rightarrow> Inr out
         | Inl e \<Rightarrow> Inl e
         | Inr out' \<Rightarrow> Inr out'))"

text \<open>
  The loop never returns: at the end of the file it sleeps and polls. \<open>run\<close> is its effect
  after the lines read so far, each with the world it was handled in: the output file, and
  the exception that ended the process if one did.
\<close>

fun run ::
  "pylib \<Rightarrow> (world \<times> string) list \<Rightarrow> string list \<Rightarrow> string list \<times> py_error option" where
  "run L [] out = (out, None)"
| "run L ((w, line) # rest) out =
     (case process_line L w line out of
        Inl e \<Rightarrow> (out, Some e)
      | Inr out' \<Rightarrow> run L rest out')"

text \<open>
  A line that goes through the whole \<open>try\<close>: it is not blank, it parses to a dict, the
  resource log yields a dict, and \<open>triage_patient\<close> returns the record \<open>d\<close>.
\<close>

definition handled :: "pylib \<Rightarrow> world \<times> string \<Rightarrow> json \<Rightarrow> bool" where
  "handled L ev d =
     (case ev of (w, line) \<Rightarrow>
        \<not> is_blank line
        \<and> (\<exists>p r. json_loads L line = Inr (JObj p)
              \<and> get_latest_resources L (resources_file w) = Inr (JObj r)
              \<and> triage_patient L w (JObj p) (get_guidelines (guidelines_file w)) (JObj r) = Inr d))"

section \<open>Reading a decision record\<close>

text \<open>\<open>entry.get(section, {}).get(key)\<close>, as the dashboard reads a record.\<close>

definition field :: "json \<Rightarrow> string \<Rightarrow> string \<Rightarrow> json option" where
  "field d sec k =
     (case d of
        JObj kvs \<Rightarrow>
          (case map_of kvs sec of
             Some (JObj kvs') \<Rightarrow> map_of kvs' k
           | _ \<Rightarrow> None)
      | _ \<Rightarrow> None)"

text \<open>The dashboard counts a record as a fallback action when its reasoning contains
  \<open>Fallback\<close>.\<close>

definition bears_fallback_marker :: "json \<Rightarrow> bool" where
  "bears_fallback_marker d =
     (case field d ''Triage Decision'' ''Reasoning'' of
        Some (JStr r) \<Rightarrow> sublist ''Fallback'' r
      | _ \<Rightarrow> False)"

definition is_str :: "json option \<Rightarrow> bool" where
  "is_str v = (case v of Some (JStr s) \<Rightarrow> True | _ \<Rightarrow> False)"

text \<open>The shape the prompt asks the reasoning service for, with the two enumerations of
  the data model: the four sections, priority and alert level from their scales, the
  other fields strings.\<close>

definition conforms_schema :: "json \<Rightarrow> bool" where
  "conforms_schema d =
     (field d ''Patient Summary'' ''ID'' \<noteq> None
      \<and> field d ''Patient Summary'' ''Name'' \<noteq> None
      \<and> field d ''Triage Decision'' ''Priority Level''
          \<in> Some ` JStr ` {''Low'', ''Medium'', ''High'', ''Critical''}
      \<and> is_str (field d ''Triage Decision'' ''Reasoning'')
      \<and> is_str (field d ''Resource Decision'' ''ICU Required'')
      \<and> is_str (field d ''Resource Decision'' ''ICU Assigned'')
      \<and> is_str (field d ''Resource Decision'' ''Doctor Assigned'')
      \<and> is_str (field d ''Resource Decision'' ''Nurse Assigned'')
      \<and> field d ''Alerts'' ''Alert Level'' \<in> Some ` JStr ` {''Normal'', ''Urgent''}
      \<and> is_str (field d ''Alerts'' ''Alert Message''))"

section \<open>Fixtures for concrete runs\<close>

text \<open>A \<open>json.loads\<close> given by a finite table of texts and their values; every other text
  raises \<open>JSONDecodeError\<close>. With it the library parameter is a concrete value in the examples below.\<close>

definition table_loads :: "(string \<times> json) list \<Rightarrow> string \<Rightarrow> loads_error + json" where
  "table_loads tbl s =
     (case map_of tbl s of
        Some v \<Rightarrow> Inr v
      | None \<Rightarrow> Inl (DecodeError ''Expecting value: line 1 column 1 (char 0)''))"

definition table_lib :: "(string \<times> json) list \<Rightarrow> pylib" where
  "table_lib tbl =
     \<lparr>json_loads = table_loads tbl, json_dumps = (\<lambda>d. ''{}''), py_repr = (\<lambda>v. ''?'')\<rparr>"

text \<open>A world in which every call of the reasoning service fails to connect.\<close>

definition offline_world :: "string option \<Rightarrow> string list option \<Rightarrow> world" where
  "offline_world key res =
     \<lparr>api_key = key, guidelines_file = None, resources_file = res,
      llm = (\<lambda>prompt. Raises ''Connection error.'')\<rparr>"

section \<open>Facts about the fallback branch\<close>

lemma lower_append: "lower (a @ b) = lower a @ lower b"
  by (simp add: lower_def)

lemma fallback_symptoms_str:
  "map_of p ''symptoms'' = Some (JStr s) \<Longrightarrow>
   fallback L (JObj p) error_msg = Inr (fallback_record L p error_msg (keyword_rules (lower s)))"
  by (simp add: fallback_def dict_get_def py_lower_def)

lemma fallback_symptoms_missing:
  "map_of p ''symptoms'' = None \<Longrightarrow>
   fallback L (JObj p) error_msg = Inr (fallback_record L p error_msg (keyword_rules []))"
  by (simp add: fallback_def dict_get_def py_lower_def lower_def)

lemma field_fallback_record:
  "field (fallback_record L p e (a, b, c)) ''Patient Summary'' ''ID'' = Some (dict_get p ''patient_id'' JNull)"
  "field (fallback_record L p e (a, b, c)) ''Patient Summary'' ''Name'' = Some (dict_get p ''name'' JNull)"
  "field (fallback_record L p e (a, b, c)) ''Triage Decision'' ''Priority Level'' = Some (JStr a)"
  "field (fallback_record L p e (a, b, c)) ''Triage Decision'' ''Reasoning'' =
     Some (JStr (b @ '' (Auto-generated due to LLM Error: '' @ take 50 e @ ''...)''))"
  "field (fallback_record L p e (a, b, c)) ''Resource Decision'' ''ICU Required'' = Some (JStr c)"
  "field (fallback_record L p e (a, b, c)) ''Resource Decision'' ''ICU Assigned'' = Some (JStr ''Pending Check'')"
  "field (fallback_record L p e (a, b, c)) ''Resource Decision'' ''Doctor Assigned'' = Some (JStr ''On Call'')"
  "field (fallback_record L p e (a, b, c)) ''Resource Decision'' ''Nurse Assigned'' = Some (JStr ''Next Available'')"
  "field (fallback_record L p e (a, b, c)) ''Alerts'' ''Alert Level'' =
     Some (JStr (if a = ''Critical'' then ''Urgent'' else ''Normal''))"
  "field (fallback_record L p e (a, b, c)) ''Alerts'' ''Alert Message'' =
     Some (JStr (''System Alert: Fallback mode used for '' @ py_str L (dict_get p ''name'' JNull)))"
  by (simp_all add: field_def fallback_record_def)

lemma keyword_rules_cases:
  "keyword_rules s = (''Critical'', ''Fallback: Critical keywords detected in symptoms.'', ''Yes'')
   \<or> keyword_rules s = (''Medium'', ''Fallback: Potential fracture detected.'', ''No'')
   \<or> keyword_rules s = (''Low'', ''Fallback: Minor symptoms detected.'', ''No'')"
  by (simp add: keyword_rules_def)

lemma keyword_rules_severe:
  "sublist ''severe'' s \<Longrightarrow>
   keyword_rules s = (''Critical'', ''Fallback: Critical keywords detected in symptoms.'', ''Yes'')"
  by (simp add: keyword_rules_def)

lemma keyword_rules_broken_thumb: "keyword_rules (lower ''Broken thumb'') = (''Medium'', ''Fallback: Potential fracture detected.'', ''No'')"
  by code_simp
lemma keyword_rules_asthma: "keyword_rules (lower ''Asthma attack, difficulty breathing'') = (''Critical'', ''Fallback: Critical keywords detected in symptoms.'', ''Yes'')"
  by code_simp
lemma keyword_rules_mild_cough: "keyword_rules (lower ''Mild cough'') = (''Low'', ''Fallback: Minor symptoms detected.'', ''No'')"
  by code_simp
lemma keyword_rules_empty: "keyword_rules [] = (''Low'', ''Fallback: Minor symptoms detected.'', ''No'')"
  by code_simp

lemma fallback_tag_marker: "sublist ''Fallback'' (''Fallback: Minor symptoms detected.'' @ x)"
  "sublist ''Fallback'' (''Fallback: Potential fracture detected.'' @ x)"
  "sublist ''Fallback'' (''Fallback: Critical keywords detected in symptoms.'' @ x)"
  by (simp_all add: sublist_code prefix_code)

lemma schema_fallback_record:
  "conforms_schema (fallback_record L p e (keyword_rules s))"
  using keyword_rules_cases[of s]
  by (auto simp: conforms_schema_def field_fallback_record is_str_def)

lemma marker_fallback_record:
  "bears_fallback_marker (fallback_record L p e (keyword_rules s))"
  using keyword_rules_cases[of s]
  by (auto simp: bears_fallback_marker_def field_fallback_record fallback_tag_marker simp del: append.simps)

lemma keyword_rules_critical:
  "sublist ''chest pain'' s \<or> sublist ''severe'' s \<or> sublist ''difficulty breathing'' s \<Longrightarrow>
   keyword_rules s = (''Critical'', ''Fallback: Critical keywords detected in symptoms.'', ''Yes'')"
  by (simp add: keyword_rules_def)

lemma keyword_rules_medium:
  "\<not> sublist ''chest pain'' s \<Longrightarrow> \<not> sublist ''severe'' s \<Longrightarrow>
   \<not> sublist ''difficulty breathing'' s \<Longrightarrow> sublist ''broken'' s \<or> sublist ''fracture'' s \<Longrightarrow>
   keyword_rules s = (''Medium'', ''Fallback: Potential fracture detected.'', ''No'')"
  by (simp add: keyword_rules_def)

lemma fallback_returns:
  "map_of p ''symptoms'' = None \<or> map_of p ''symptoms'' = Some (JStr s) \<Longrightarrow>
   \<exists>t. fallback L (JObj p) error_msg = Inr (fallback_record L p error_msg (keyword_rules t))"
  using fallback_symptoms_missing [of p L error_msg] fallback_symptoms_str [of p s L error_msg]
  by auto

lemma no_key_record_plain:
  "\<not> bears_fallback_marker (JObj [(''error'', e), (''patient_id'', i)])"
  "\<not> conforms_schema (JObj [(''error'', e), (''patient_id'', i)])"
  by (simp_all add: bears_fallback_marker_def conforms_schema_def field_def)

lemma triage_patient_no_key:
  "api_key w = None \<or> api_key w = Some [] \<Longrightarrow>
   triage_patient L w (JObj p) guidelines_text (JObj r) = Inr (no_key_record p)"
  by (auto simp: triage_patient_def build_prompt_def)

lemma triage_patient_raises:
  "api_key w = Some key \<Longrightarrow> key \<noteq> [] \<Longrightarrow>
   build_prompt L (JObj p) guidelines_text (JObj r) = Inr prompt \<Longrightarrow>
   llm w prompt = Raises error_msg \<Longrightarrow>
   triage_patient L w (JObj p) guidelines_text (JObj r) = fallback L (JObj p) error_msg"
  by (simp add: triage_patient_def)

lemma build_prompt_obj:
  "\<exists>prompt. build_prompt L (JObj p) guidelines_text (JObj r) = Inr prompt"
  by (simp add: build_prompt_def)

section \<open>Facts about the resource log and the loop\<close>

lemma scan_lines_blank: "list_all is_blank ls \<Longrightarrow> scan_lines acc ls = acc"
  by (induction ls arbitrary: acc) simp_all

lemma scan_lines_last:
  "\<not> is_blank l \<Longrightarrow> list_all is_blank post \<Longrightarrow> scan_lines acc (pre @ [l] @ post) = Some l"
  by (induction pre arbitrary: acc) (simp_all add: scan_lines_blank)

lemma blank_nl: "is_blank nl"
  by code_simp

lemma nonblank_brace: "\<not> is_blank (CHR ''{'' # s)"
  by (simp add: is_blank_def is_space_def)

lemma nonblank_letter: "\<not> is_blank (CHR ''n'' # s)"
  by (simp add: is_blank_def is_space_def)

lemma nonblank_digit: "\<not> is_blank (CHR ''4'' # s)"
  by (simp add: is_blank_def is_space_def)

text \<open>
  A line that \<open>json.loads\<close> rejects with \<open>JSONDecodeError\<close> leaves the output file as it was,
  and the loop goes on. A line it rejects with a plain \<open>ValueError\<close> ends \<open>run\<close>: the handler
  does not catch it.
\<close>

lemma process_line_invalid_json:
  "json_loads L line = Inl (DecodeError msg) \<Longrightarrow> process_line L w line out = Inr out"
  by (simp add: process_line_def try_body_def raised_def)

lemma process_line_value_error:
  "\<not> is_blank line \<Longrightarrow> json_loads L line = Inl (PlainValueError msg) \<Longrightarrow>
   process_line L w line out = Inl (ValueError msg)"
  by (auto simp: process_line_def try_body_def raised_def is_blank_def)

text \<open>
  A turn of the loop either leaves the output file as it was or adds one line at its end, so
  whatever was written stays: the file after any number of lines starts with the file
  before them.
\<close>

lemma try_body_appends:
  "try_body L w line out = Inr out' \<Longrightarrow> \<exists>d. out' = out @ [json_dumps L d @ nl]"
  by (auto simp: try_body_def split: sum.splits)

lemma process_line_appends:
  "process_line L w line out = Inr out' \<Longrightarrow> out' = out \<or> (\<exists>d. out' = out @ [json_dumps L d @ nl])"
  by (auto simp: process_line_def split: if_splits sum.splits py_error.splits dest: try_body_appends)

lemma run_append_only: "prefix out (fst (run L evs out))"
proof (induction evs arbitrary: out)
  case Nil
  show ?case by simp
next
  case (Cons ev evs)
  obtain w line where ev: "ev = (w, line)"
    by (cases ev)
  show ?case
  proof (cases "process_line L w line out")
    case (Inl e)
    then show ?thesis by (simp add: ev)
  next
    case (Inr out')
    then have "prefix out out'"
      using process_line_appends [of L w line out out'] by auto
    moreover have "prefix out' (fst (run L evs out'))"
      by (rule Cons.IH)
    ultimately show ?thesis
      using Inr by (auto simp: ev)
  qed
qed

text \<open>
  With a record whose \<open>symptoms\<close> is absent or a string and a resource snapshot that is a dict,
  every branch of \<open>triage_patient\<close> returns a record; and when every line read goes through
  the whole \<open>try\<close>, the output file gains one line for each, in the order they were read.
\<close>

lemma triage_patient_returns:
  assumes "map_of p ''symptoms'' = None \<or> map_of p ''symptoms'' = Some (JStr s)"
  shows "\<exists>d. triage_patient L w (JObj p) guidelines_text (JObj r) = Inr d"
proof -
  have f: "\<exists>d. fallback L (JObj p) e = Inr d" for e
    using fallback_returns [OF assms, of L e] by blast
  show ?thesis
    using f
    by (auto simp: triage_patient_def build_prompt_def split: llm_outcome.splits sum.splits)
qed

lemma process_line_handled:
  assumes "handled L (w, line) d"
  shows "process_line L w line out = Inr (out @ [json_dumps L d @ nl])"
proof -
  from assms obtain p r where nb: "\<not> is_blank line"
    and a: "json_loads L line = Inr (JObj p)"
    and b: "get_latest_resources L (resources_file w) = Inr (JObj r)"
    and c: "triage_patient L w (JObj p) (get_guidelines (guidelines_file w)) (JObj r) = Inr d"
    by (auto simp: handled_def)
  from nb have ne: "line \<noteq> []"
    by (auto simp: is_blank_def)
  show ?thesis
    using nb ne by (simp add: process_line_def try_body_def a b c py_get_def)
qed

lemma run_one_line_per_record:
  "list_all2 (handled L) evs ds \<Longrightarrow>
   run L evs out = (out @ map (\<lambda>d. json_dumps L d @ nl) ds, None)"
proof (induction evs ds arbitrary: out rule: list_all2_induct)
  case Nil
  show ?case by simp
next
  case (Cons ev evs d ds)
  obtain w line where ev: "ev = (w, line)"
    by (cases ev)
  have "process_line L w line out = Inr (out @ [json_dumps L d @ nl])"
    using Cons.hyps(1) unfolding ev by (rule process_line_handled)
  then show ?case
    by (simp add: ev Cons.IH)
qed

section \<open>C1: no credential, and an unreachable service\<close>

text \<open>
  C1, as the code has it. For a patient record and a resource snapshot that are dicts:
  when \<open>OPENAI_API_KEY\<close> is unset or empty, \<open>triage_patient\<close> returns the record
  \<open>{"error": "OPENAI_API_KEY not set", "patient_id": ...}\<close>, which carries no fallback marker;
  when a key is set and the call of the reasoning service raises, and the record has no
  \<open>symptoms\<close> or a string there, \<open>triage_patient\<close> returns the decision of the fallback branch,
  which carries the marker \<open>Fallback\<close> in its reasoning and has the shape of a TriageDecision.
\<close>

theorem credential_and_fallback:
  "(api_key w = None \<or> api_key w = Some [] \<longrightarrow>
      triage_patient L w (JObj p) guidelines_text (JObj r) =
        Inr (JObj [(''error'', JStr ''OPENAI_API_KEY not set''),
                   (''patient_id'', dict_get p ''patient_id'' JNull)])
      \<and> \<not> bears_fallback_marker
            (JObj [(''error'', JStr ''OPENAI_API_KEY not set''),
                   (''patient_id'', dict_get p ''patient_id'' JNull)]))
   \<and> (api_key w = Some key \<and> key \<noteq> []
       \<and> build_prompt L (JObj p) guidelines_text (JObj r) = Inr prompt
       \<and> llm w prompt = Raises error_msg
       \<and> (map_of p ''symptoms'' = None \<or> map_of p ''symptoms'' = Some (JStr s)) \<longrightarrow>
      (\<exists>d. triage_patient L w (JObj p) guidelines_text (JObj r) = Inr d
         \<and> fallback L (JObj p) error_msg = Inr d
         \<and> bears_fallback_marker d
         \<and> conforms_schema d))"
proof (intro conjI impI)
  assume "api_key w = None \<or> api_key w = Some []"
  then show "triage_patient L w (JObj p) guidelines_text (JObj r) =
        Inr (JObj [(''error'', JStr ''OPENAI_API_KEY not set''),
                   (''patient_id'', dict_get p ''patient_id'' JNull)])"
    by (simp add: triage_patient_no_key no_key_record_def)
next
  show "\<not> bears_fallback_marker
            (JObj [(''error'', JStr ''OPENAI_API_KEY not set''),
                   (''patient_id'', dict_get p ''patient_id'' JNull)])"
    by (rule no_key_record_plain)
next
  assume a: "api_key w = Some key \<and> key \<noteq> []
       \<and> build_prompt L (JObj p) guidelines_text (JObj r) = Inr prompt
       \<and> llm w prompt = Raises error_msg
       \<and> (map_of p ''symptoms'' = None \<or> map_of p ''symptoms'' = Some (JStr s))"
  then have t: "triage_patient L w (JObj p) guidelines_text (JObj r) = fallback L (JObj p) error_msg"
    using triage_patient_raises [of w key L p guidelines_text r prompt error_msg] by blast
  from a obtain u where
    f: "fallback L (JObj p) error_msg = Inr (fallback_record L p error_msg (keyword_rules u))"
    using fallback_returns [of p s L error_msg] by blast
  show "\<exists>d. triage_patient L w (JObj p) guidelines_text (JObj r) = Inr d
         \<and> fallback L (JObj p) error_msg = Inr d
         \<and> bears_fallback_marker d
         \<and> conforms_schema d"
    unfolding t f
    by (simp add: marker_fallback_record schema_fallback_record)
qed

text \<open>
  The theorem at a record of the simulator, without a key and with a key and no connection.
\<close>

theorem credential_and_fallback_witness:
  "triage_patient (table_lib []) (offline_world None None)
       (JObj [(''patient_id'', JStr ''P2003''), (''name'', JStr ''Charlie Brown''),
              (''symptoms'', JStr ''Asthma attack, difficulty breathing'')]) [] (JObj [])
     = Inr (JObj [(''error'', JStr ''OPENAI_API_KEY not set''), (''patient_id'', JStr ''P2003'')])
   \<and> (\<exists>d. triage_patient (table_lib []) (offline_world (Some ''sk-test'') None)
            (JObj [(''patient_id'', JStr ''P2003''), (''name'', JStr ''Charlie Brown''),
                   (''symptoms'', JStr ''Asthma attack, difficulty breathing'')]) [] (JObj []) = Inr d
         \<and> bears_fallback_marker d \<and> conforms_schema d)"
proof -
  let ?p = "[(''patient_id'', JStr ''P2003''), (''name'', JStr ''Charlie Brown''),
              (''symptoms'', JStr ''Asthma attack, difficulty breathing'')]"
  obtain q where q: "build_prompt (table_lib []) (JObj ?p) [] (JObj []) = Inr q"
    using build_prompt_obj by blast
  have k0: "api_key (offline_world None None) = None"
    and k1: "api_key (offline_world (Some ''sk-test'') None) = Some ''sk-test''"
    and k2: "llm (offline_world (Some ''sk-test'') None) q = Raises ''Connection error.''"
    by (simp_all add: offline_world_def)
  have s: "map_of ?p ''symptoms'' = Some (JStr ''Asthma attack, difficulty breathing'')"
    by simp
  show ?thesis
    using credential_and_fallback [where w = "offline_world None None" and L = "table_lib []"
        and p = ?p and guidelines_text = "[]" and r = "[]"]
      credential_and_fallback [where w = "offline_world (Some ''sk-test'') None" and L = "table_lib []"
        and p = ?p and guidelines_text = "[]" and r = "[]" and key = "''sk-test''" and prompt = q
        and error_msg = "''Connection error.''" and s = "''Asthma attack, difficulty breathing''"]
      q k0 k1 k2 s
    by (auto simp: dict_get_def)
qed

text \<open>
  C1 as stated fails without a credential: the record returned for patient \<open>P2002\<close> is the
  error record, with no reasoning text, no fallback marker and none of the four sections.
\<close>

theorem no_credential_counterexample:
  "triage_patient (table_lib []) (offline_world None None)
       (JObj [(''patient_id'', JStr ''P2002''), (''name'', JStr ''Bob Builder''),
              (''symptoms'', JStr ''Broken thumb'')]) [] (JObj [])
     = Inr (JObj [(''error'', JStr ''OPENAI_API_KEY not set''), (''patient_id'', JStr ''P2002'')])
   \<and> \<not> bears_fallback_marker
         (JObj [(''error'', JStr ''OPENAI_API_KEY not set''), (''patient_id'', JStr ''P2002'')])
   \<and> \<not> conforms_schema
         (JObj [(''error'', JStr ''OPENAI_API_KEY not set''), (''patient_id'', JStr ''P2002'')])"
  by (simp add: triage_patient_no_key offline_world_def no_key_record_def dict_get_def
      no_key_record_plain)

section \<open>C2: the latest resource snapshot\<close>

text \<open>
  C2, as the code has it. \<open>get_latest_resources\<close> returns the empty dict when the log does not
  exist or has only blank lines. Otherwise it parses the last line that is not blank, and
  only that one: it returns its value when it parses and raises the parse error when it does
  not, whatever the lines before it hold.
\<close>

theorem latest_resources_last_nonblank:
  "(log = None \<or> (\<exists>ls. log = Some ls \<and> list_all is_blank ls) \<longrightarrow>
      get_latest_resources L log = Inr (JObj []))
   \<and> (log = Some (pre @ [l] @ post) \<and> \<not> is_blank l \<and> list_all is_blank post \<longrightarrow>
      get_latest_resources L log =
        (case json_loads L l of Inl e \<Rightarrow> Inl (raised e) | Inr v \<Rightarrow> Inr v))"
  by (auto simp: get_latest_resources_def scan_lines_blank scan_lines_last simp del: append.simps)

text \<open>
  The theorem on a missing log, and on three snapshots followed by two blank lines: the third
  snapshot is returned.
\<close>

theorem latest_resources_last_nonblank_witness:
  \<open>get_latest_resources (table_lib []) None = Inr (JObj [])
   \<and> get_latest_resources
       (table_lib [(''{"icu_beds_available": 5}'' @ nl, JObj [(''icu_beds_available'', JInt 5)]),
                   (''{"icu_beds_available": 4}'' @ nl, JObj [(''icu_beds_available'', JInt 4)]),
                   (''{"icu_beds_available": 3}'' @ nl, JObj [(''icu_beds_available'', JInt 3)])])
       (Some ([''{"icu_beds_available": 5}'' @ nl, ''{"icu_beds_available": 4}'' @ nl]
               @ [''{"icu_beds_available": 3}'' @ nl] @ [nl, nl]))
     = Inr (JObj [(''icu_beds_available'', JInt 3)])\<close>
proof -
  have b: "list_all is_blank [nl, nl]"
    by (simp add: blank_nl)
  show ?thesis
    using latest_resources_last_nonblank [where log = None and L = "table_lib []"]
      latest_resources_last_nonblank
        [where pre = \<open>[''{"icu_beds_available": 5}'' @ nl, ''{"icu_beds_available": 4}'' @ nl]\<close>
           and l = \<open>''{"icu_beds_available": 3}'' @ nl\<close> and post = "[nl, nl]"
           and log = \<open>Some ([''{"icu_beds_available": 5}'' @ nl, ''{"icu_beds_available": 4}'' @ nl]
               @ [''{"icu_beds_available": 3}'' @ nl] @ [nl, nl])\<close>
           and L = \<open>table_lib [(''{"icu_beds_available": 5}'' @ nl, JObj [(''icu_beds_available'', JInt 5)]),
                   (''{"icu_beds_available": 4}'' @ nl, JObj [(''icu_beds_available'', JInt 4)]),
                   (''{"icu_beds_available": 3}'' @ nl, JObj [(''icu_beds_available'', JInt 3)])]\<close>]
      b
    by (simp add: nonblank_brace table_lib_def table_loads_def raised_def nl_def)
qed

text \<open>
  C2 as stated fails on three valid snapshots followed by the malformed line \<open>not json\<close>: the
  reader does not return the third snapshot, it raises the parse error of the fourth line.
\<close>

theorem latest_resources_counterexample:
  \<open>get_latest_resources
       (table_lib [(''{"icu_beds_available": 5}'' @ nl, JObj [(''icu_beds_available'', JInt 5)]),
                   (''{"icu_beds_available": 4}'' @ nl, JObj [(''icu_beds_available'', JInt 4)]),
                   (''{"icu_beds_available": 3}'' @ nl, JObj [(''icu_beds_available'', JInt 3)])])
       (Some [''{"icu_beds_available": 5}'' @ nl, ''{"icu_beds_available": 4}'' @ nl,
              ''{"icu_beds_available": 3}'' @ nl, ''not json'' @ nl])
     = Inl (JSONDecodeError ''Expecting value: line 1 column 1 (char 0)'')\<close>
  by (simp add: get_latest_resources_def nonblank_brace nonblank_letter table_lib_def table_loads_def
      raised_def nl_def)

section \<open>C3: one decision for every valid patient record\<close>

text \<open>
  C3. The \<open>try\<close> of the loop encloses \<open>get_latest_resources\<close>, so a resource log that ends in
  a malformed line raises \<open>JSONDecodeError\<close> inside it and the handler meant for the patient
  line swallows it: the valid record of patient \<open>P2002\<close> is read and nothing is written for
  it. With no resource log the same line yields one output line.
\<close>

theorem valid_patient_dropped:
  \<open>run (table_lib [(''{"patient_id": "P2002", "name": "Bob Builder", "symptoms": "Broken thumb"}'' @ nl,
                     JObj [(''patient_id'', JStr ''P2002''), (''name'', JStr ''Bob Builder''),
                           (''symptoms'', JStr ''Broken thumb'')])])
       [(offline_world (Some ''sk-test'') (Some [''{"icu_beds_available": '' @ nl]),
         ''{"patient_id": "P2002", "name": "Bob Builder", "symptoms": "Broken thumb"}'' @ nl)] []
     = ([], None)
   \<and> run (table_lib [(''{"patient_id": "P2002", "name": "Bob Builder", "symptoms": "Broken thumb"}'' @ nl,
                     JObj [(''patient_id'', JStr ''P2002''), (''name'', JStr ''Bob Builder''),
                           (''symptoms'', JStr ''Broken thumb'')])])
       [(offline_world (Some ''sk-test'') None,
         ''{"patient_id": "P2002", "name": "Bob Builder", "symptoms": "Broken thumb"}'' @ nl)] []
     = ([''{}'' @ nl], None)\<close>
  by (simp add: process_line_def try_body_def nonblank_brace table_lib_def table_loads_def raised_def
      offline_world_def get_latest_resources_def py_get_def triage_patient_def build_prompt_def
      fallback_def py_lower_def dict_get_def get_guidelines_def nl_def)

section \<open>C4: \<open>severe\<close> wins over the fracture keywords\<close>

text \<open>
  C4. Whenever the lower-cased symptoms contain \<open>severe\<close>, whatever else they contain
  (also \<open>broken\<close> or \<open>fracture\<close>), the fallback returns priority \<open>Critical\<close>, ICU required
  \<open>Yes\<close> and a reasoning that starts with the tag of the first rule: the first rule wins
  over the second.
\<close>

theorem severe_dominates:
  assumes "map_of p ''symptoms'' = Some (JStr s)"
    and "sublist ''severe'' (lower s)"
  shows "\<exists>d. fallback L (JObj p) error_msg = Inr d
      \<and> field d ''Triage Decision'' ''Priority Level'' = Some (JStr ''Critical'')
      \<and> field d ''Resource Decision'' ''ICU Required'' = Some (JStr ''Yes'')
      \<and> field d ''Triage Decision'' ''Reasoning'' =
          Some (JStr (''Fallback: Critical keywords detected in symptoms.''
                  @ '' (Auto-generated due to LLM Error: '' @ take 50 error_msg @ ''...)''))"
  using assms
  by (simp add: fallback_symptoms_str keyword_rules_severe field_fallback_record del: append.simps)

text \<open>
  The theorem at symptoms that hold \<open>Severe\<close>, \<open>broken\<close> and \<open>fracture\<close> at once.
\<close>

theorem severe_dominates_witness:
  "\<exists>d. fallback (table_lib []) (JObj [(''patient_id'', JStr ''P7''), (''name'', JStr ''Ann''),
            (''symptoms'', JStr ''Severe pain, broken arm and a fracture'')]) ''Connection error.'' = Inr d
      \<and> field d ''Triage Decision'' ''Priority Level'' = Some (JStr ''Critical'')
      \<and> field d ''Resource Decision'' ''ICU Required'' = Some (JStr ''Yes'')
      \<and> field d ''Triage Decision'' ''Reasoning'' =
          Some (JStr (''Fallback: Critical keywords detected in symptoms.''
                  @ '' (Auto-generated due to LLM Error: '' @ take 50 ''Connection error.'' @ ''...)''))"
proof -
  have h1: "map_of [(''patient_id'', JStr ''P7''), (''name'', JStr ''Ann''),
            (''symptoms'', JStr ''Severe pain, broken arm and a fracture'')] ''symptoms''
      = Some (JStr ''Severe pain, broken arm and a fracture'')"
    by simp
  have h2: "sublist ''severe'' (lower ''Severe pain, broken arm and a fracture'')"
    by code_simp
  show ?thesis
    by (rule severe_dominates [OF h1 h2])
qed

section \<open>C5: three records of the simulator\<close>

text \<open>
  C5. In the fallback, symptoms \<open>Broken thumb\<close> give priority \<open>Medium\<close> and ICU required
  \<open>No\<close>; \<open>Asthma attack, difficulty breathing\<close> gives \<open>Critical\<close>, \<open>Yes\<close> and alert level
  \<open>Urgent\<close>; \<open>Mild cough\<close> gives \<open>Low\<close>, \<open>No\<close> and alert level \<open>Normal\<close>, whatever the other
  fields of the record and the error are.
\<close>

theorem fallback_examples:
  "(map_of p ''symptoms'' = Some (JStr ''Broken thumb'') \<longrightarrow>
      (\<exists>d. fallback L (JObj p) error_msg = Inr d
         \<and> field d ''Triage Decision'' ''Priority Level'' = Some (JStr ''Medium'')
         \<and> field d ''Resource Decision'' ''ICU Required'' = Some (JStr ''No'')))
   \<and> (map_of p ''symptoms'' = Some (JStr ''Asthma attack, difficulty breathing'') \<longrightarrow>
      (\<exists>d. fallback L (JObj p) error_msg = Inr d
         \<and> field d ''Triage Decision'' ''Priority Level'' = Some (JStr ''Critical'')
         \<and> field d ''Resource Decision'' ''ICU Required'' = Some (JStr ''Yes'')
         \<and> field d ''Alerts'' ''Alert Level'' = Some (JStr ''Urgent'')))
   \<and> (map_of p ''symptoms'' = Some (JStr ''Mild cough'') \<longrightarrow>
      (\<exists>d. fallback L (JObj p) error_msg = Inr d
         \<and> field d ''Triage Decision'' ''Priority Level'' = Some (JStr ''Low'')
         \<and> field d ''Resource Decision'' ''ICU Required'' = Some (JStr ''No'')
         \<and> field d ''Alerts'' ''Alert Level'' = Some (JStr ''Normal'')))"
  by (simp add: fallback_symptoms_str keyword_rules_broken_thumb keyword_rules_asthma
      keyword_rules_mild_cough field_fallback_record)

text \<open>
  The theorem at three full patient records.
\<close>

theorem fallback_examples_witness:
  "(\<exists>d. fallback (table_lib [])
           (JObj [(''patient_id'', JStr ''P2002''), (''name'', JStr ''Bob Builder''),
                  (''symptoms'', JStr ''Broken thumb'')]) ''Connection error.'' = Inr d
      \<and> field d ''Triage Decision'' ''Priority Level'' = Some (JStr ''Medium'')
      \<and> field d ''Resource Decision'' ''ICU Required'' = Some (JStr ''No''))
   \<and> (\<exists>d. fallback (table_lib [])
           (JObj [(''patient_id'', JStr ''P2003''), (''name'', JStr ''Charlie Brown''),
                  (''symptoms'', JStr ''Asthma attack, difficulty breathing'')]) ''Connection error.'' = Inr d
      \<and> field d ''Triage Decision'' ''Priority Level'' = Some (JStr ''Critical'')
      \<and> field d ''Resource Decision'' ''ICU Required'' = Some (JStr ''Yes'')
      \<and> field d ''Alerts'' ''Alert Level'' = Some (JStr ''Urgent''))
   \<and> (\<exists>d. fallback (table_lib [])
           (JObj [(''patient_id'', JStr ''P2004''), (''name'', JStr ''Dana Scully''),
                  (''symptoms'', JStr ''Mild cough'')]) ''Connection error.'' = Inr d
      \<and> field d ''Triage Decision'' ''Priority Level'' = Some (JStr ''Low'')
      \<and> field d ''Resource Decision'' ''ICU Required'' = Some (JStr ''No'')
      \<and> field d ''Alerts'' ''Alert Level'' = Some (JStr ''Normal''))"
  using fallback_examples [where L = "table_lib []" and error_msg = "''Connection error.''"
      and p = "[(''patient_id'', JStr ''P2002''), (''name'', JStr ''Bob Builder''),
                (''symptoms'', JStr ''Broken thumb'')]"]
    fallback_examples [where L = "table_lib []" and error_msg = "''Connection error.''"
      and p = "[(''patient_id'', JStr ''P2003''), (''name'', JStr ''Charlie Brown''),
                (''symptoms'', JStr ''Asthma attack, difficulty breathing'')]"]
    fallback_examples [where L = "table_lib []" and error_msg = "''Connection error.''"
      and p = "[(''patient_id'', JStr ''P2004''), (''name'', JStr ''Dana Scully''),
                (''symptoms'', JStr ''Mild cough'')]"]
  by simp

section \<open>C6: lines that are not patient records\<close>

text \<open>
  C6. The handler of the loop catches \<open>json.JSONDecodeError\<close> only. The line \<open>42\<close> is valid
  JSON and not a patient record: \<open>json.loads\<close> returns an integer, \<open>patient.get\<close> raises
  \<open>AttributeError\<close>, nothing catches it and \<open>run\<close> ends there; the valid record on the next
  line is never processed.
\<close>

theorem non_object_line_crashes:
  \<open>run (table_lib [(''42'' @ nl, JInt 42),
                    (''{"patient_id": "P2002", "name": "Bob Builder", "symptoms": "Broken thumb"}'' @ nl,
                     JObj [(''patient_id'', JStr ''P2002''), (''name'', JStr ''Bob Builder''),
                           (''symptoms'', JStr ''Broken thumb'')])])
       [(offline_world (Some ''sk-test'') None, ''42'' @ nl),
        (offline_world (Some ''sk-test'') None,
         ''{"patient_id": "P2002", "name": "Bob Builder", "symptoms": "Broken thumb"}'' @ nl)] []
     = ([], Some AttributeError)\<close>
  by (simp add: process_line_def try_body_def nonblank_digit table_lib_def table_loads_def
      py_get_def nl_def)

section \<open>C7: the alert of a fallback decision\<close>

text \<open>
  C7. In every decision the fallback returns, the alert level is \<open>Urgent\<close> when the priority
  is \<open>Critical\<close> and \<open>Normal\<close> otherwise, and the alert message is
  \<open>System Alert: Fallback mode used for\<close> followed by the name of the record as \<open>str\<close> formats
  it: the name itself when it is a string.
\<close>

theorem alert_follows_priority:
  assumes "fallback L patient_data error_msg = Inr d"
  shows "field d ''Alerts'' ''Alert Level'' =
           Some (JStr (if field d ''Triage Decision'' ''Priority Level'' = Some (JStr ''Critical'')
                       then ''Urgent'' else ''Normal''))
       \<and> (\<exists>p. patient_data = JObj p
            \<and> field d ''Alerts'' ''Alert Message'' =
                Some (JStr (''System Alert: Fallback mode used for ''
                              @ py_str L (dict_get p ''name'' JNull))))
       \<and> (\<forall>n. py_get patient_data ''name'' JNull = Inr (JStr n) \<longrightarrow>
            field d ''Alerts'' ''Alert Message'' =
              Some (JStr (''System Alert: Fallback mode used for '' @ n)))"
proof -
  obtain p where pd: "patient_data = JObj p"
    using assms by (cases patient_data) (simp_all add: fallback_def)
  obtain symptoms where d: "d = fallback_record L p error_msg (keyword_rules symptoms)"
    using assms unfolding pd fallback_def
    by (auto split: sum.splits)
  obtain a b c where k: "keyword_rules symptoms = (a, b, c)"
    by (cases "keyword_rules symptoms")
  show ?thesis
    unfolding pd d k
    by (simp add: field_fallback_record py_get_def py_str_def del: append.simps)
qed

text \<open>
  The theorem at the decision for Charlie Brown's asthma attack.
\<close>

theorem alert_follows_priority_witness:
  "field (fallback_record (table_lib [])
            [(''patient_id'', JStr ''P2003''), (''name'', JStr ''Charlie Brown''),
             (''symptoms'', JStr ''Asthma attack, difficulty breathing'')]
            ''Connection error.''
            (''Critical'', ''Fallback: Critical keywords detected in symptoms.'', ''Yes''))
      ''Alerts'' ''Alert Level'' = Some (JStr ''Urgent'')
   \<and> field (fallback_record (table_lib [])
            [(''patient_id'', JStr ''P2003''), (''name'', JStr ''Charlie Brown''),
             (''symptoms'', JStr ''Asthma attack, difficulty breathing'')]
            ''Connection error.''
            (''Critical'', ''Fallback: Critical keywords detected in symptoms.'', ''Yes''))
      ''Alerts'' ''Alert Message'' = Some (JStr ''System Alert: Fallback mode used for Charlie Brown'')"
proof -
  let ?p = "[(''patient_id'', JStr ''P2003''), (''name'', JStr ''Charlie Brown''),
             (''symptoms'', JStr ''Asthma attack, difficulty breathing'')]"
  let ?d = "fallback_record (table_lib []) ?p ''Connection error.''
              (''Critical'', ''Fallback: Critical keywords detected in symptoms.'', ''Yes'')"
  have h: "fallback (table_lib []) (JObj ?p) ''Connection error.'' = Inr ?d"
    by (simp add: fallback_symptoms_str keyword_rules_asthma)
  have n: "py_get (JObj ?p) ''name'' JNull = Inr (JStr ''Charlie Brown'')"
    by (simp add: py_get_def dict_get_def)
  have pr: "field ?d ''Triage Decision'' ''Priority Level'' = Some (JStr ''Critical'')"
    by (rule field_fallback_record)
  show ?thesis
    using alert_follows_priority [OF h] n pr by (simp add: py_str_def dict_get_def)
qed

section \<open>C8: what the fallback decision depends on\<close>

text \<open>
  C8, as the code has it. The fallback decision is a function of the record's
  \<open>patient_id\<close>, \<open>name\<close> and \<open>symptoms\<close> and of the first 50 characters of the error text:
  two calls that agree on these return the same result, whatever the other fields of the
  record, their order and the rest of the error text are.
\<close>

theorem fallback_determined_by:
  assumes "dict_get p ''patient_id'' JNull = dict_get p' ''patient_id'' JNull"
    and "dict_get p ''name'' JNull = dict_get p' ''name'' JNull"
    and "dict_get p ''symptoms'' (JStr []) = dict_get p' ''symptoms'' (JStr [])"
    and "take 50 error_msg = take 50 error_msg'"
  shows "fallback L (JObj p) error_msg = fallback L (JObj p') error_msg'"
  using assms
  by (simp add: fallback_def fallback_record_def split: sum.splits prod.splits)

text \<open>
  The theorem at two records that differ in field order, vitals and labs, with error texts
  that differ after the 50th character.
\<close>

theorem fallback_determined_by_witness:
  "fallback (table_lib [])
      (JObj [(''patient_id'', JStr ''P2001''), (''name'', JStr ''Alice Wonderland''),
             (''symptoms'', JStr ''Severe headache, slurred speech''),
             (''vitals'', JObj [(''hr'', JInt 90)])])
      ''Error code: 429 - You exceeded your current quota, please check your plan''
   = fallback (table_lib [])
      (JObj [(''symptoms'', JStr ''Severe headache, slurred speech''),
             (''name'', JStr ''Alice Wonderland''), (''patient_id'', JStr ''P2001''),
             (''labs'', JObj [])])
      ''Error code: 429 - You exceeded your current quota, please retry later''"
  by (rule fallback_determined_by) (simp_all add: dict_get_def)

text \<open>
  C8 as stated fails: the same symptoms and the same error give different decisions for
  two patients with different names, since the decision carries the name.
\<close>

theorem fallback_same_symptoms_counterexample:
  "fallback (table_lib [])
      (JObj [(''name'', JStr ''Alice''), (''symptoms'', JStr ''Mild cough'')]) ''Connection error.''
   \<noteq> fallback (table_lib [])
      (JObj [(''name'', JStr ''Bob''), (''symptoms'', JStr ''Mild cough'')]) ''Connection error.''"
  by (simp add: fallback_def fallback_record_def dict_get_def py_lower_def split: prod.splits)

section \<open>C9: keywords inside longer words\<close>

text \<open>
  C9. The keywords are looked for as substrings of the lower-cased symptoms, with no
  condition on what stands before or after: when the lower-cased symptoms are
  \<open>pre @ k @ post\<close> for a keyword \<open>k\<close> of the first rule, the decision is \<open>Critical\<close> with ICU
  required \<open>Yes\<close>; for a keyword of the second rule, and no keyword of the first anywhere,
  it is \<open>Medium\<close> with ICU required \<open>No\<close>.
\<close>

theorem substring_matching:
  assumes "map_of p ''symptoms'' = Some (JStr s)"
    and "lower s = pre @ k @ post"
  shows "(k \<in> {''chest pain'', ''severe'', ''difficulty breathing''} \<longrightarrow>
           (\<exists>d. fallback L (JObj p) error_msg = Inr d
              \<and> field d ''Triage Decision'' ''Priority Level'' = Some (JStr ''Critical'')
              \<and> field d ''Resource Decision'' ''ICU Required'' = Some (JStr ''Yes'')))
       \<and> (k \<in> {''broken'', ''fracture''}
            \<and> \<not> sublist ''chest pain'' (lower s) \<and> \<not> sublist ''severe'' (lower s)
            \<and> \<not> sublist ''difficulty breathing'' (lower s) \<longrightarrow>
           (\<exists>d. fallback L (JObj p) error_msg = Inr d
              \<and> field d ''Triage Decision'' ''Priority Level'' = Some (JStr ''Medium'')
              \<and> field d ''Resource Decision'' ''ICU Required'' = Some (JStr ''No'')))"
proof -
  have sub: "sublist k (lower s)"
    unfolding assms(2) by (rule sublist_appendI)
  have crit: "k \<in> {''chest pain'', ''severe'', ''difficulty breathing''} \<Longrightarrow>
      keyword_rules (lower s) =
        (''Critical'', ''Fallback: Critical keywords detected in symptoms.'', ''Yes'')"
    using sub by (intro keyword_rules_critical) auto
  have med: "k \<in> {''broken'', ''fracture''} \<Longrightarrow>
      \<not> sublist ''chest pain'' (lower s) \<Longrightarrow> \<not> sublist ''severe'' (lower s) \<Longrightarrow>
      \<not> sublist ''difficulty breathing'' (lower s) \<Longrightarrow>
      keyword_rules (lower s) = (''Medium'', ''Fallback: Potential fracture detected.'', ''No'')"
    using sub by (intro keyword_rules_medium) auto
  show ?thesis
    using crit med
    by (auto simp: fallback_symptoms_str [OF assms(1)] field_fallback_record)
qed

text \<open>
  The theorem at \<open>severe\<close> inside \<open>Persevered\<close> and at \<open>broken\<close> inside \<open>Heartbroken\<close>.
\<close>

theorem substring_matching_witness:
  "(\<exists>d. fallback (table_lib []) (JObj [(''name'', JStr ''Dee''), (''symptoms'', JStr ''Persevered through a cold'')])
          ''Connection error.'' = Inr d
      \<and> field d ''Triage Decision'' ''Priority Level'' = Some (JStr ''Critical'')
      \<and> field d ''Resource Decision'' ''ICU Required'' = Some (JStr ''Yes''))
   \<and> (\<exists>d. fallback (table_lib []) (JObj [(''name'', JStr ''Eli''), (''symptoms'', JStr ''Heartbroken'')])
          ''Connection error.'' = Inr d
      \<and> field d ''Triage Decision'' ''Priority Level'' = Some (JStr ''Medium'')
      \<and> field d ''Resource Decision'' ''ICU Required'' = Some (JStr ''No''))"
proof -
  have a1: "map_of [(''name'', JStr ''Dee''), (''symptoms'', JStr ''Persevered through a cold'')] ''symptoms''
      = Some (JStr ''Persevered through a cold'')"
    by simp
  have a2: "lower ''Persevered through a cold'' = ''per'' @ ''severe'' @ ''d through a cold''"
    by code_simp
  have b1: "map_of [(''name'', JStr ''Eli''), (''symptoms'', JStr ''Heartbroken'')] ''symptoms''
      = Some (JStr ''Heartbroken'')"
    by simp
  have b2: "lower ''Heartbroken'' = ''heart'' @ ''broken'' @ []"
    by code_simp
  have b3: "\<not> sublist ''chest pain'' (lower ''Heartbroken'')"
    "\<not> sublist ''severe'' (lower ''Heartbroken'')"
    "\<not> sublist ''difficulty breathing'' (lower ''Heartbroken'')"
    by code_simp+
  show ?thesis
    using substring_matching [OF a1 a2, of "table_lib []" "''Connection error.''"]
      substring_matching [OF b1 b2, of "table_lib []" "''Connection error.''"] b3
    by simp
qed

section \<open>C10: records with missing or ill-typed fields\<close>

text \<open>
  What the fallback does on a record without \<open>symptoms\<close>, \<open>name\<close> or \<open>patient_id\<close>: without
  \<open>symptoms\<close> the decision has priority \<open>Low\<close> and ICU required \<open>No\<close>; without \<open>symptoms\<close> or
  with a string there, whether or not the record has \<open>name\<close> and \<open>patient_id\<close>, the decision
  has the TriageDecision shape, with \<open>None\<close> for a missing id or name; and with a key set, a
  resource snapshot that is a dict and a reasoning call that raises, \<open>triage_patient\<close> returns
  what the fallback returns.
\<close>

lemma fallback_missing_fields:
  "(map_of p ''symptoms'' = None \<longrightarrow>
      (\<exists>d. fallback L (JObj p) error_msg = Inr d
         \<and> field d ''Triage Decision'' ''Priority Level'' = Some (JStr ''Low'')
         \<and> field d ''Resource Decision'' ''ICU Required'' = Some (JStr ''No'')))
   \<and> (map_of p ''symptoms'' = None \<or> map_of p ''symptoms'' = Some (JStr s) \<longrightarrow>
      (\<exists>d. fallback L (JObj p) error_msg = Inr d
         \<and> conforms_schema d
         \<and> field d ''Patient Summary'' ''ID'' = Some (dict_get p ''patient_id'' JNull)
         \<and> field d ''Patient Summary'' ''Name'' = Some (dict_get p ''name'' JNull)
         \<and> field d ''Alerts'' ''Alert Message'' =
             Some (JStr (''System Alert: Fallback mode used for ''
                           @ py_str L (dict_get p ''name'' JNull)))))
   \<and> (api_key w = Some key \<and> key \<noteq> [] \<and> (\<forall>prompt. llm w prompt = Raises error_msg) \<longrightarrow>
        triage_patient L w (JObj p) guidelines_text (JObj r) = fallback L (JObj p) error_msg)"
proof (intro conjI impI)
  assume "map_of p ''symptoms'' = None"
  then show "\<exists>d. fallback L (JObj p) error_msg = Inr d
         \<and> field d ''Triage Decision'' ''Priority Level'' = Some (JStr ''Low'')
         \<and> field d ''Resource Decision'' ''ICU Required'' = Some (JStr ''No'')"
    by (simp add: fallback_symptoms_missing keyword_rules_empty field_fallback_record)
next
  assume "map_of p ''symptoms'' = None \<or> map_of p ''symptoms'' = Some (JStr s)"
  then obtain u where
    f: "fallback L (JObj p) error_msg = Inr (fallback_record L p error_msg (keyword_rules u))"
    using fallback_symptoms_missing [of p L error_msg] fallback_symptoms_str [of p s L error_msg]
    by auto
  obtain a b c where k: "keyword_rules u = (a, b, c)"
    by (cases "keyword_rules u")
  have "conforms_schema (fallback_record L p error_msg (keyword_rules u))"
    by (rule schema_fallback_record)
  then show "\<exists>d. fallback L (JObj p) error_msg = Inr d
         \<and> conforms_schema d
         \<and> field d ''Patient Summary'' ''ID'' = Some (dict_get p ''patient_id'' JNull)
         \<and> field d ''Patient Summary'' ''Name'' = Some (dict_get p ''name'' JNull)
         \<and> field d ''Alerts'' ''Alert Message'' =
             Some (JStr (''System Alert: Fallback mode used for ''
                           @ py_str L (dict_get p ''name'' JNull)))"
    unfolding f k by (simp add: field_fallback_record del: append.simps)
next
  assume "api_key w = Some key \<and> key \<noteq> [] \<and> (\<forall>prompt. llm w prompt = Raises error_msg)"
  then show "triage_patient L w (JObj p) guidelines_text (JObj r) = fallback L (JObj p) error_msg"
    by (simp add: triage_patient_def build_prompt_def)
qed

text \<open>
  The fallback returns a decision exactly for the records whose \<open>symptoms\<close> is absent or a
  string: the default \<open>''\<close> of \<open>.get\<close> covers the missing key only.
\<close>

lemma fallback_returns_iff:
  "(\<exists>d. fallback L (JObj p) error_msg = Inr d)
     \<longleftrightarrow> (map_of p ''symptoms'' = None \<or> (\<exists>s. map_of p ''symptoms'' = Some (JStr s)))"
proof
  assume "\<exists>d. fallback L (JObj p) error_msg = Inr d"
  then show "map_of p ''symptoms'' = None \<or> (\<exists>s. map_of p ''symptoms'' = Some (JStr s))"
    by (cases "map_of p ''symptoms''")
      (auto simp: fallback_def dict_get_def py_lower_def split: json.splits)
next
  assume "map_of p ''symptoms'' = None \<or> (\<exists>s. map_of p ''symptoms'' = Some (JStr s))"
  then show "\<exists>d. fallback L (JObj p) error_msg = Inr d"
    using fallback_returns [of p _ L error_msg] by blast
qed

text \<open>
  C10. The fallback is not total over malformed patient records. The record
  \<open>{"patient_id": "P2005", "name": "Eve Moneypenny", "symptoms": null}\<close> has the key
  \<open>symptoms\<close>, so \<open>.get('symptoms', '')\<close> returns \<open>None\<close> and \<open>.lower()\<close> raises \<open>AttributeError\<close>
  inside the \<open>except\<close> branch: the fallback returns no decision, the exception leaves
  \<open>triage_patient\<close>, the handler of the loop does not catch it, and \<open>run\<close> ends with nothing
  written.
\<close>

theorem null_symptoms_crashes:
  \<open>fallback (table_lib [])
       (JObj [(''patient_id'', JStr ''P2005''), (''name'', JStr ''Eve Moneypenny''),
              (''symptoms'', JNull)]) ''Connection error.''
     = Inl AttributeError
   \<and> triage_patient (table_lib []) (offline_world (Some ''sk-test'') None)
       (JObj [(''patient_id'', JStr ''P2005''), (''name'', JStr ''Eve Moneypenny''),
              (''symptoms'', JNull)]) [] (JObj [])
     = Inl AttributeError
   \<and> run (table_lib [(''{"patient_id": "P2005", "name": "Eve Moneypenny", "symptoms": null}'' @ nl,
                       JObj [(''patient_id'', JStr ''P2005''), (''name'', JStr ''Eve Moneypenny''),
                             (''symptoms'', JNull)])])
       [(offline_world (Some ''sk-test'') None,
         ''{"patient_id": "P2005", "name": "Eve Moneypenny", "symptoms": null}'' @ nl)] []
     = ([], Some AttributeError)\<close>
proof -
  have f: "fallback L
       (JObj [(''patient_id'', JStr ''P2005''), (''name'', JStr ''Eve Moneypenny''),
              (''symptoms'', JNull)]) e = Inl AttributeError" for L e
    by (simp add: fallback_def dict_get_def py_lower_def)
  have t: "triage_patient (table_lib []) (offline_world (Some ''sk-test'') None)
       (JObj [(''patient_id'', JStr ''P2005''), (''name'', JStr ''Eve Moneypenny''),
              (''symptoms'', JNull)]) [] (JObj [])
     = Inl AttributeError"
    by (simp add: triage_patient_def build_prompt_def offline_world_def f)
  have r: \<open>run (table_lib [(''{"patient_id": "P2005", "name": "Eve Moneypenny", "symptoms": null}'' @ nl,
                       JObj [(''patient_id'', JStr ''P2005''), (''name'', JStr ''Eve Moneypenny''),
                             (''symptoms'', JNull)])])
       [(offline_world (Some ''sk-test'') None,
         ''{"patient_id": "P2005", "name": "Eve Moneypenny", "symptoms": null}'' @ nl)] []
     = ([], Some AttributeError)\<close>
    by (simp add: process_line_def try_body_def nonblank_brace table_lib_def table_loads_def
        offline_world_def get_latest_resources_def py_get_def triage_patient_def build_prompt_def
        f get_guidelines_def nl_def)
  show ?thesis
    using f t r by simp
qed

end
